theory Spec2Isabelle
  imports Complex_Main "HOL-Library.Sublist"
begin

section \<open>Crafta Revenue Control Room: invoice review, approval and exceptions\<close>

text \<open>
  The sources are the Next.js pages of the control room: the invoice detail page
  (\<open>InvoiceDetailPage\<close> with its \<open>sampleInvoice\<close>), the \<open>ApprovalModal\<close> component, the
  invoice queue (\<open>invoices\<close>) and the Exception Center (\<open>exceptions\<close>, \<open>typeConfig\<close>).
  JavaScript numbers are modelled as reals: every number in the sources is a short
  decimal literal, and the only operations on them are comparison, sum and product of
  such literals. JavaScript strings are modelled as \<open>string\<close>, that is, lists of 8-bit
  characters.
\<close>

subsection \<open>Strings\<close>

text \<open>
  \<open>String.prototype.trim\<close> removes white space and line terminators from both ends.
  Among 8-bit characters these are the codes 9 to 13, 32 and 160.
\<close>

definition is_space :: "char \<Rightarrow> bool" where
  "is_space c = (of_char c \<in> {9, 10, 11, 12, 13, 32, 160 :: nat})"

definition trim :: "string \<Rightarrow> string" where
  "trim s = rev (dropWhile is_space (rev (dropWhile is_space s)))"

text \<open>\<open>str_includes s t\<close> is \<open>s.includes(t)\<close>: \<open>t\<close> occurs in \<open>s\<close> as a contiguous run of characters.\<close>

fun str_includes :: "string \<Rightarrow> string \<Rightarrow> bool" where
  "str_includes [] t = (t = [])"
| "str_includes (c # s) t = (prefix t (c # s) \<or> str_includes s t)"

subsection \<open>The invoice of the detail page\<close>

record InvoiceLine =
  line_id :: string
  description :: string
  quantity :: real
  unit :: string
  unit_price :: real
  amount :: real
  source_clause_id :: string
  source_event_ids :: "string list"
  explain :: string
  agent_reasoning :: string
  confidence :: real
  is_exception :: bool
  requires_cfo_approval :: bool

record Invoice =
  invoice_id :: string
  contract_id :: string
  drafted_by :: string
  lines :: "InvoiceLine list"
  subtotal :: real
  tax :: real
  total :: real
  status :: string
  invoice_date :: string
  due_date :: string
  explainability :: string
  aggregate_confidence :: real
  created_at :: string

text \<open>
  The three lines of \<open>sampleInvoice\<close>. The multiplication sign in the reasoning text of
  the second line is not an ASCII character and is written \<open>x\<close> here; no code reads
  that field.
\<close>

definition l1 :: InvoiceLine where
  "l1 = \<lparr> line_id = ''l1'',
          description = ''Consulting hours Dec (10h @ $200)'',
          quantity = 10, unit = ''hour'', unit_price = 200, amount = 2000,
          source_clause_id = ''c1'', source_event_ids = [''we_001''],
          explain = ''Derived from timesheet event we_001'',
          agent_reasoning = ''The contract clause c1 specifies a rate of $200/hour for consulting services. Work event we_001 records 10 hours of consulting on 2025-12-12. Multiplying 10 hours by $200/hour yields $2,000. This aligns with the pre-calculated amount in the work event.'',
          confidence = 0.93, is_exception = False, requires_cfo_approval = False \<rparr>"

definition l2 :: InvoiceLine where
  "l2 = \<lparr> line_id = ''l2'',
          description = ''Additional consulting hours (5h @ $200)'',
          quantity = 5, unit = ''hour'', unit_price = 200, amount = 1000,
          source_clause_id = ''c1'', source_event_ids = [''we_002''],
          explain = ''Derived from timesheet event we_002'',
          agent_reasoning = ''The contract clause c1 specifies a rate of $200/hour. Work event we_002 records 5 hours of additional consulting. Calculation: 5 hours x $200/hour = $1,000.'',
          confidence = 0.91, is_exception = False, requires_cfo_approval = False \<rparr>"

definition l3 :: InvoiceLine where
  "l3 = \<lparr> line_id = ''l3'',
          description = ''Milestone: Phase 1 Completion'',
          quantity = 1, unit = ''fixed'', unit_price = 12000, amount = 12000,
          source_clause_id = ''c2'', source_event_ids = [''we_003''],
          explain = ''Milestone payment triggered by completion event we_003'',
          agent_reasoning = ''Contract clause c2 specifies a milestone payment of $12,000 upon completion of Phase 1. Work event we_003 indicates Phase 1 acceptance was completed. Manual verification of acceptance is recommended.'',
          confidence = 0.88, is_exception = False, requires_cfo_approval = False \<rparr>"

definition sampleInvoice :: Invoice where
  "sampleInvoice = \<lparr> invoice_id = ''inv_20260118_001'',
          contract_id = ''ctr_20260115_001'',
          drafted_by = ''agent_v0.1'',
          lines = [l1, l2, l3],
          subtotal = 15000, tax = 0, total = 15000,
          status = ''draft'',
          invoice_date = ''2026-01-18'', due_date = ''2026-02-17'',
          explainability = ''Invoice derived from contract ctr_20260115_001 with 3 line(s). Used clauses: c1, c2. Linked work events: we_001, we_002, we_003. Aggregate confidence: 91%.'',
          aggregate_confidence = 0.91,
          created_at = ''2026-01-18T07:00:00Z'' \<rparr>"

subsection \<open>The approval modal\<close>

text \<open>The \<open>useState\<close> cells of \<open>ApprovalModal\<close>, with their initial values.\<close>

record modal_state =
  reviewedLines :: "string set"
  approverName :: string
  approverEmail :: string
  approvalNote :: string
  confirmReviewed :: bool
  error :: string

definition modal_init :: modal_state where
  "modal_init = \<lparr> reviewedLines = {}, approverName = '''', approverEmail = '''',
                   approvalNote = '''', confirmReviewed = False, error = '''' \<rparr>"

text \<open>The object handed to \<open>onApprove\<close>.\<close>

record approval_data =
  approver_name :: string
  approver_email :: string
  approval_note :: string
  confirm_reviewed :: bool

definition allLinesReviewed :: "Invoice \<Rightarrow> modal_state \<Rightarrow> bool" where
  "allLinesReviewed ivc m = list_all (\<lambda>line. line_id line \<in> reviewedLines m) (lines ivc)"

definition handleToggleLine :: "modal_state \<Rightarrow> string \<Rightarrow> modal_state" where
  "handleToggleLine m lineId =
     (if lineId \<in> reviewedLines m
      then m\<lparr>reviewedLines := reviewedLines m - {lineId}\<rparr>
      else m\<lparr>reviewedLines := insert lineId (reviewedLines m)\<rparr>)"

text \<open>
  \<open>handleSubmit\<close> returns the new modal state and, when it calls \<open>onApprove\<close>, the
  payload of that call. Each early \<open>return\<close> of the source is a branch with \<open>None\<close>.
\<close>

definition handleSubmit :: "Invoice \<Rightarrow> modal_state \<Rightarrow> modal_state \<times> approval_data option" where
  "handleSubmit ivc m =
     (let m0 = m\<lparr>error := ''''\<rparr> in
      if trim (approverName m) = '''' then
        (m0\<lparr>error := ''Please enter your name''\<rparr>, None)
      else if trim (approverEmail m) = '''' \<or> \<not> str_includes (approverEmail m) ''@'' then
        (m0\<lparr>error := ''Please enter a valid email address''\<rparr>, None)
      else if \<not> allLinesReviewed ivc m then
        (m0\<lparr>error := ''Please confirm you have reviewed all line items''\<rparr>, None)
      else if \<not> confirmReviewed m then
        (m0\<lparr>error := ''Please check the confirmation box''\<rparr>, None)
      else
        (m0, Some \<lparr> approver_name = approverName m,
                     approver_email = approverEmail m,
                     approval_note = approvalNote m,
                     confirm_reviewed = True \<rparr>))"

subsection \<open>The invoice detail page\<close>

record page_state =
  showApprovalModal :: bool
  invoice :: Invoice
  modal :: modal_state

text \<open>
  The page starts with the modal closed. The source passes \<open>sampleInvoice\<close> to
  \<open>useState\<close>; the initial invoice is a parameter here so that statements can range
  over every invoice.
\<close>

definition page_init :: "Invoice \<Rightarrow> page_state" where
  "page_init ivc = \<lparr> showApprovalModal = False, invoice = ivc, modal = modal_init \<rparr>"

definition handleApprove :: "page_state \<Rightarrow> approval_data \<Rightarrow> page_state" where
  "handleApprove p approvalData =
     p\<lparr> invoice := (invoice p)\<lparr>status := ''approved''\<rparr>, showApprovalModal := False \<rparr>"

text \<open>
  What the user can do on the page. A control that is not rendered, or is disabled,
  cannot be used: the Approve button exists only while the status is \<open>draft\<close>, the
  Push to ERP button only while it is \<open>approved\<close>, the modal's controls only while the
  modal is shown, one checkbox per invoice line, and the modal's submit button is
  disabled unless all lines are reviewed and the confirmation box is checked.
  The Edit, Push to ERP and Export PDF buttons have no handler.
\<close>

definition approve_button_visible :: "page_state \<Rightarrow> bool" where
  "approve_button_visible p = (status (invoice p) = ''draft'')"

definition push_button_visible :: "page_state \<Rightarrow> bool" where
  "push_button_visible p = (status (invoice p) = ''approved'')"

datatype event =
    ClickApprove
  | ClickEdit
  | ClickPushToERP
  | ClickExportPDF
  | ModalClose
  | ToggleLine string
  | SetApproverName string
  | SetApproverEmail string
  | SetApprovalNote string
  | SetConfirmReviewed bool
  | ModalSubmit

fun step :: "page_state \<Rightarrow> event \<Rightarrow> page_state" where
  "step p ClickApprove =
     (if approve_button_visible p then p\<lparr>showApprovalModal := True\<rparr> else p)"
| "step p ClickEdit = p"
| "step p ClickPushToERP = p"
| "step p ClickExportPDF = p"
| "step p ModalClose =
     (if showApprovalModal p then p\<lparr>showApprovalModal := False\<rparr> else p)"
| "step p (ToggleLine lineId) =
     (if showApprovalModal p \<and> lineId \<in> set (map line_id (lines (invoice p)))
      then p\<lparr>modal := handleToggleLine (modal p) lineId\<rparr> else p)"
| "step p (SetApproverName v) =
     (if showApprovalModal p then p\<lparr>modal := (modal p)\<lparr>approverName := v\<rparr>\<rparr> else p)"
| "step p (SetApproverEmail v) =
     (if showApprovalModal p then p\<lparr>modal := (modal p)\<lparr>approverEmail := v\<rparr>\<rparr> else p)"
| "step p (SetApprovalNote v) =
     (if showApprovalModal p then p\<lparr>modal := (modal p)\<lparr>approvalNote := v\<rparr>\<rparr> else p)"
| "step p (SetConfirmReviewed b) =
     (if showApprovalModal p then p\<lparr>modal := (modal p)\<lparr>confirmReviewed := b\<rparr>\<rparr> else p)"
| "step p ModalSubmit =
     (if showApprovalModal p \<and> allLinesReviewed (invoice p) (modal p) \<and> confirmReviewed (modal p)
      then (case handleSubmit (invoice p) (modal p) of
              (m', None) \<Rightarrow> p\<lparr>modal := m'\<rparr>
            | (m', Some approvalData) \<Rightarrow> handleApprove (p\<lparr>modal := m'\<rparr>) approvalData)
      else p)"

definition run :: "page_state \<Rightarrow> event list \<Rightarrow> page_state" where
  "run p es = foldl step p es"

text \<open>An event approves when it reaches the call of \<open>handleApprove\<close>.\<close>

definition approves :: "page_state \<Rightarrow> event \<Rightarrow> bool" where
  "approves p e = (e = ModalSubmit \<and> showApprovalModal p
      \<and> allLinesReviewed (invoice p) (modal p) \<and> confirmReviewed (modal p)
      \<and> snd (handleSubmit (invoice p) (modal p)) \<noteq> None)"

definition modal_only_on_draft :: "page_state \<Rightarrow> bool" where
  "modal_only_on_draft p = (showApprovalModal p \<longrightarrow> status (invoice p) = ''draft'')"

text \<open>
  A complete review of \<open>sampleInvoice\<close>: open the modal, type name and email, tick
  the three lines and the confirmation box.
\<close>

definition review_clicks :: "event list" where
  "review_clicks = [ClickApprove, SetApproverName ''Jane Doe'',
     SetApproverEmail ''controller@company.com'',
     ToggleLine ''l1'', ToggleLine ''l2'', ToggleLine ''l3'', SetConfirmReviewed True]"

definition page_reviewed :: page_state where
  "page_reviewed = run (page_init sampleInvoice) review_clicks"

text \<open>A review that ticks only the first line.\<close>

definition modal_partial :: modal_state where
  "modal_partial = \<lparr> reviewedLines = {''l1''}, approverName = ''Jane Doe'',
     approverEmail = ''controller@company.com'', approvalNote = '''',
     confirmReviewed = True, error = '''' \<rparr>"

text \<open>The clicks that lead to it, and the page after them.\<close>

definition partial_clicks :: "event list" where
  "partial_clicks = [ClickApprove, SetApproverName ''Jane Doe'',
     SetApproverEmail ''controller@company.com'', ToggleLine ''l1'', SetConfirmReviewed True]"

definition page_partial :: page_state where
  "page_partial = run (page_init sampleInvoice) partial_clicks"


subsection \<open>Notions used to state the properties\<close>

definition unreviewed_ids :: "Invoice \<Rightarrow> modal_state \<Rightarrow> string list" where
  "unreviewed_ids ivc m = filter (\<lambda>i. i \<notin> reviewedLines m) (map line_id (lines ivc))"

definition names_ids :: "string \<Rightarrow> string list \<Rightarrow> bool" where
  "names_ids msg ids = list_all (str_includes msg) ids"

definition min_confidence :: "Invoice \<Rightarrow> real" where
  "min_confidence ivc = Min (set (map confidence (lines ivc)))"

subsection \<open>The invoice queue and the Exception Center\<close>

text \<open>
  The rows of \<open>invoices\<close> on the queue page. They carry a line count but no lines.
  Optional properties (\<open>approvedBy\<close>, \<open>approvedAt\<close>, \<open>erpInvoiceId\<close>) are options.
\<close>

record QueueRow =
  q_id :: string
  q_contractId :: string
  q_contractName :: string
  q_status :: string
  q_linesCount :: nat
  q_subtotal :: real
  q_tax :: real
  q_total :: real
  q_confidence :: real
  q_invoiceDate :: string
  q_dueDate :: string
  q_hasExceptions :: bool
  q_requiresCfo :: bool
  q_approvedBy :: "string option"
  q_approvedAt :: "string option"
  q_erpInvoiceId :: "string option"

definition invoices :: "QueueRow list" where
  "invoices =
    [ \<lparr> q_id = ''inv_20260118_001'', q_contractId = ''ctr_20260115_001'',
        q_contractName = ''MSA-ACME Services'', q_status = ''draft'', q_linesCount = 3,
        q_subtotal = 15000, q_tax = 0, q_total = 15000, q_confidence = 0.93,
        q_invoiceDate = ''2026-01-18'', q_dueDate = ''2026-02-17'',
        q_hasExceptions = False, q_requiresCfo = False,
        q_approvedBy = None, q_approvedAt = None, q_erpInvoiceId = None \<rparr>,
      \<lparr> q_id = ''inv_20260117_002'', q_contractId = ''ctr_20260110_002'',
        q_contractName = ''TechCorp Consulting'', q_status = ''exception'', q_linesCount = 5,
        q_subtotal = 8500, q_tax = 0, q_total = 8500, q_confidence = 0.72,
        q_invoiceDate = ''2026-01-17'', q_dueDate = ''2026-02-16'',
        q_hasExceptions = True, q_requiresCfo = False,
        q_approvedBy = None, q_approvedAt = None, q_erpInvoiceId = None \<rparr>,
      \<lparr> q_id = ''inv_20260115_003'', q_contractId = ''ctr_20260108_003'',
        q_contractName = ''BlueCo Implementation'', q_status = ''approved'', q_linesCount = 8,
        q_subtotal = 45000, q_tax = 4500, q_total = 49500, q_confidence = 0.97,
        q_invoiceDate = ''2026-01-15'', q_dueDate = ''2026-02-14'',
        q_hasExceptions = False, q_requiresCfo = True,
        q_approvedBy = Some ''Jane Doe'', q_approvedAt = Some ''2026-01-16T09:00:00Z'',
        q_erpInvoiceId = None \<rparr>,
      \<lparr> q_id = ''inv_20260110_004'', q_contractId = ''ctr_20260105_004'',
        q_contractName = ''Monthly Retainer - Alpha'', q_status = ''pushed'', q_linesCount = 2,
        q_subtotal = 5000, q_tax = 0, q_total = 5000, q_confidence = 0.99,
        q_invoiceDate = ''2026-01-10'', q_dueDate = ''2026-02-09'',
        q_hasExceptions = False, q_requiresCfo = False,
        q_approvedBy = None, q_approvedAt = None,
        q_erpInvoiceId = Some ''QB-20260110-001'' \<rparr> ]"

text \<open>
  The records of \<open>exceptions\<close> on the Exception Center page. \<open>assignedTo: null\<close> and
  an absent \<open>assignedTo\<close> are both \<open>None\<close>.
\<close>

record ExceptionComment =
  cmt_id :: string
  cmt_author :: string
  cmt_text :: string
  cmt_createdAt :: string

record ExceptionRecord =
  exc_id :: string
  exc_invoiceId :: string
  exc_lineId :: string
  exc_type :: string
  exc_description :: string
  exc_amount :: real
  exc_confidence :: real
  exc_reason :: string
  exc_contractClause :: string
  exc_status :: string
  exc_createdAt :: string
  exc_assignedTo :: "string option"
  exc_comments :: "ExceptionComment list"
  exc_resolvedAt :: "string option"
  exc_resolvedBy :: "string option"
  exc_resolution :: "string option"

definition exc_001 :: ExceptionRecord where
  "exc_001 = \<lparr> exc_id = ''exc_001'', exc_invoiceId = ''inv_20260117_002'', exc_lineId = ''l3'',
      exc_type = ''low_confidence'',
      exc_description = ''Milestone payment - Phase 2 Completion'',
      exc_amount = 15000, exc_confidence = 0.72,
      exc_reason = ''Confidence 72% below threshold 80%'',
      exc_contractClause = ''c3'', exc_status = ''pending'',
      exc_createdAt = ''2026-01-17T10:00:00Z'', exc_assignedTo = None, exc_comments = [],
      exc_resolvedAt = None, exc_resolvedBy = None, exc_resolution = None \<rparr>"

definition exc_002 :: ExceptionRecord where
  "exc_002 = \<lparr> exc_id = ''exc_002'', exc_invoiceId = ''inv_20260116_003'', exc_lineId = ''l5'',
      exc_type = ''cfo_required'',
      exc_description = ''Revenue recognition - Multi-element arrangement'',
      exc_amount = 45000, exc_confidence = 0.89,
      exc_reason = ''Rev-rec sensitive item requires CFO approval'',
      exc_contractClause = ''c7'', exc_status = ''pending'',
      exc_createdAt = ''2026-01-16T14:30:00Z'', exc_assignedTo = Some ''cfo@example.com'',
      exc_comments = [ \<lparr> cmt_id = ''cmt_001'', cmt_author = ''controller@example.com'',
          cmt_text = ''Flagged for CFO review due to multi-element arrangement.'',
          cmt_createdAt = ''2026-01-16T15:00:00Z'' \<rparr> ],
      exc_resolvedAt = None, exc_resolvedBy = None, exc_resolution = None \<rparr>"

definition exc_003 :: ExceptionRecord where
  "exc_003 = \<lparr> exc_id = ''exc_003'', exc_invoiceId = ''inv_20260115_004'', exc_lineId = ''l2'',
      exc_type = ''manual_review'',
      exc_description = ''Rate discrepancy - Consulting hours'',
      exc_amount = 2400, exc_confidence = 0.65,
      exc_reason = ''Extracted rate ($240/hr) differs from expected ($200/hr)'',
      exc_contractClause = ''c1'', exc_status = ''resolved'',
      exc_createdAt = ''2026-01-15T09:00:00Z'', exc_assignedTo = None, exc_comments = [],
      exc_resolvedAt = Some ''2026-01-15T11:30:00Z'',
      exc_resolvedBy = Some ''controller@example.com'',
      exc_resolution = Some ''Rate confirmed as $240/hr per amendment dated 2025-11-01'' \<rparr>"

definition exceptions :: "ExceptionRecord list" where
  "exceptions = [exc_001, exc_002, exc_003]"

text \<open>
  \<open>typeConfig\<close> maps an exception type to its label and colour: the four
  properties of the object literal.
\<close>

definition typeConfig :: "string \<Rightarrow> (string \<times> string) option" where
  "typeConfig = map_of
     [ (''low_confidence'', (''Low Confidence'', ''red'')),
       (''cfo_required'', (''CFO Required'', ''yellow'')),
       (''manual_review'', (''Manual Review'', ''orange'')),
       (''missing_data'', (''Missing Data'', ''gray'')) ]"

section \<open>The engine behind the pages\<close>

text \<open>
  The pages show what the Derivation Engine, the Exception Router and the push
  operation produce, but these run in the backend (the FastAPI services and the agent
  pipeline of the README) and are not among the sources. They are modelled from the
  specification.
\<close>

subsection \<open>Exception kinds\<close>

text \<open>
  Modelled from the spec: the kinds of an exception (no code of the sources emits a
  kind): \<open>low_confidence\<close> and \<open>cfo_required\<close>, set by the Exception Router, and
  \<open>data-missing\<close> and \<open>manual_review\<close>, set by the Derivation Engine.
\<close>

datatype exception_kind = low_confidence | cfo_required | manual_review | data_missing

text \<open>Modelled from the spec: the value of each kind, as the spec writes it.\<close>

fun kind_name :: "exception_kind \<Rightarrow> string" where
  "kind_name low_confidence = ''low_confidence''"
| "kind_name cfo_required = ''cfo_required''"
| "kind_name manual_review = ''manual_review''"
| "kind_name data_missing = ''data-missing''"

subsection \<open>Derivation\<close>

text \<open>
  Modelled from the spec: the billing basis of a clause (the Contract Term Store is
  not in the sources): time-and-materials rate, fixed milestone, recurring retainer.
\<close>

datatype billing_basis = TimeAndMaterials | FixedMilestone | RecurringRetainer

text \<open>
  Modelled from the spec: a Clause (not in the sources): id, billing basis, trigger
  condition, unit price, effective date range, the extraction confidence supplied by
  the parsing collaborator, and whether its category is policy-sensitive. Dates are
  day numbers. \<open>specificity\<close> ranks trigger conditions, for the spec's
  "most specific trigger condition". For a fixed milestone the unit price is the
  milestone amount.
\<close>

record Clause =
  clause_id :: string
  basis :: billing_basis
  trigger :: string
  clause_unit_price :: real
  effective_from :: nat
  effective_to :: nat
  specificity :: nat
  extraction_confidence :: real
  policy_sensitive :: bool

text \<open>
  Modelled from the spec: a WorkEvent (the Work Event Store is not in the sources),
  with the fields of the ingestion schema: \<open>event_id\<close>, \<open>date\<close>, \<open>description\<close>,
  \<open>units\<close>, \<open>unit_type\<close>, \<open>amount\<close> (the raw amount if pre-computed) and
  \<open>external_ref\<close>.
\<close>

record WorkEvent =
  event_id :: string
  event_date :: nat
  event_description :: string
  units :: real
  unit_type :: string
  raw_amount :: "real option"
  external_ref :: string

text \<open>
  Modelled from the spec: a derived InvoiceLine (the engine's output is not in the
  sources), with the fields the derivation algorithm determines. \<open>dl_exception = None\<close>
  stands for \<open>is_exception = false\<close>, and \<open>Some k\<close> for \<open>is_exception = true\<close> with
  kind \<open>k\<close>.
\<close>

record DerivedLine =
  dl_quantity :: real
  dl_unit_price :: real
  dl_amount :: real
  dl_source_clause_id :: "string option"
  dl_source_event_ids :: "string list"
  dl_confidence :: real
  dl_exception :: "exception_kind option"
  dl_requires_elevated_approval :: bool

text \<open>Modelled from the spec: the \<open>is_exception\<close> flag of a derived line.\<close>

definition dl_is_exception :: "DerivedLine \<Rightarrow> bool" where
  "dl_is_exception l = (dl_exception l \<noteq> None)"

text \<open>
  Modelled from the spec: the clause matching of the Derivation Engine, which is not
  in the sources. A clause matches an event when its trigger condition matches the
  event's type and its effective date range contains the event date.
\<close>

definition matches :: "Clause \<Rightarrow> WorkEvent \<Rightarrow> bool" where
  "matches c ev = (trigger c = unit_type ev
      \<and> effective_from c \<le> event_date ev \<and> event_date ev \<le> effective_to c)"

text \<open>Modelled from the spec: the clauses of the contract that match an event, in order.\<close>

definition matching :: "Clause list \<Rightarrow> WorkEvent \<Rightarrow> Clause list" where
  "matching cs ev = filter (\<lambda>c. matches c ev) cs"

text \<open>
  Modelled from the spec: the order among several matching clauses, which is not in
  the sources: the most specific trigger condition, then the latest effective start.
\<close>

definition more_specific :: "Clause \<Rightarrow> Clause \<Rightarrow> bool" where
  "more_specific c d = (specificity d < specificity c
      \<or> (specificity c = specificity d \<and> effective_from d < effective_from c))"

text \<open>Modelled from the spec: the clause picked among several matching clauses.\<close>

definition pick :: "Clause \<Rightarrow> Clause list \<Rightarrow> Clause" where
  "pick c cs = foldl (\<lambda>best d. if more_specific d best then d else best) c cs"

text \<open>
  Modelled from the spec: the amount of a line, which is not in the sources:
  quantity times unit price, or the clause's fixed milestone amount whatever the
  quantity.
\<close>

definition line_amount :: "Clause \<Rightarrow> WorkEvent \<Rightarrow> real" where
  "line_amount c ev =
     (case basis c of
        FixedMilestone \<Rightarrow> clause_unit_price c
      | TimeAndMaterials \<Rightarrow> units ev * clause_unit_price c
      | RecurringRetainer \<Rightarrow> units ev * clause_unit_price c)"

text \<open>
  Modelled from the spec: the line for an event billed on a clause, with a given
  confidence and exception kind. The line requires elevated approval when the
  clause's category is policy-sensitive, independent of confidence.
\<close>

definition matched_line :: "Clause \<Rightarrow> WorkEvent \<Rightarrow> real \<Rightarrow> exception_kind option \<Rightarrow> DerivedLine" where
  "matched_line c ev conf k =
     \<lparr> dl_quantity = units ev, dl_unit_price = clause_unit_price c,
       dl_amount = line_amount c ev,
       dl_source_clause_id = Some (clause_id c), dl_source_event_ids = [event_id ev],
       dl_confidence = conf, dl_exception = k,
       dl_requires_elevated_approval = policy_sensitive c \<rparr>"

text \<open>
  Modelled from the spec: the derivation of one line from one WorkEvent, which is not
  in the sources. One match gives a plain line with the clause's extraction
  confidence; no match gives an exception line of kind \<open>data-missing\<close>; several
  matches give the picked clause's line, flagged for manual review, with the
  confidence lowered by \<open>penalty\<close>. The spec fixes neither the penalty nor the
  amount and confidence of an unmatched line: the penalty is a parameter, and the
  unmatched line carries the event's quantity, amount 0 and confidence 0.
\<close>

definition derive_line :: "real \<Rightarrow> Clause list \<Rightarrow> WorkEvent \<Rightarrow> DerivedLine" where
  "derive_line penalty cs ev =
     (case matching cs ev of
        [] \<Rightarrow> \<lparr> dl_quantity = units ev, dl_unit_price = 0, dl_amount = 0,
                dl_source_clause_id = None, dl_source_event_ids = [event_id ev],
                dl_confidence = 0, dl_exception = Some data_missing,
                dl_requires_elevated_approval = False \<rparr>
      | [c] \<Rightarrow> matched_line c ev (extraction_confidence c) None
      | c # d # ds \<Rightarrow>
          (let b = pick c (d # ds)
           in matched_line b ev (extraction_confidence b - penalty) (Some manual_review)))"




subsection \<open>Exception routing\<close>

text \<open>Modelled from the spec: the two reviewers of the routing rule.\<close>

datatype reviewer = Controller | CFO_approver

text \<open>
  The records of \<open>exceptions\<close> name the CFO approver \<open>cfo@example.com\<close>; the
  exceptions left to the default reviewer carry no assignee there.
\<close>

fun assignedTo_of :: "reviewer \<Rightarrow> string option" where
  "assignedTo_of Controller = None"
| "assignedTo_of CFO_approver = Some ''cfo@example.com''"

text \<open>
  Modelled from the spec: the Exception the router creates (not in the sources): its
  kind, its assigned reviewer and whether it is resolved.
\<close>

record RoutedException =
  re_kind :: exception_kind
  re_reviewer :: reviewer
  re_resolved :: bool

text \<open>
  Modelled from the spec: the confidence threshold of the router, default 0.80. The
  pages compare confidences with the same number.
\<close>

definition CONFIDENCE_THRESHOLD :: real where
  "CONFIDENCE_THRESHOLD = 0.80"

text \<open>
  Modelled from the spec: the routing rule of the Exception Router, which is not in
  the sources. A line that requires elevated approval goes to the CFO approver
  regardless of confidence; a line flagged by the Derivation Engine keeps the engine's
  kind and goes to the Controller; any other line below the confidence threshold is
  of kind \<open>low_confidence\<close> and goes to the Controller; every other line raises no
  exception.
\<close>

definition route_line :: "DerivedLine \<Rightarrow> RoutedException option" where
  "route_line l =
     (if dl_requires_elevated_approval l then
        Some \<lparr> re_kind = cfo_required, re_reviewer = CFO_approver, re_resolved = False \<rparr>
      else case dl_exception l of
        Some k \<Rightarrow> Some \<lparr> re_kind = k, re_reviewer = Controller, re_resolved = False \<rparr>
      | None \<Rightarrow>
          if dl_confidence l < CONFIDENCE_THRESHOLD then
            Some \<lparr> re_kind = low_confidence, re_reviewer = Controller, re_resolved = False \<rparr>
          else None)"


subsection \<open>Push\<close>

text \<open>Modelled from the spec: the errors of a transition and of a push.\<close>

datatype transition_error = InvalidTransitionError | PushError

text \<open>
  Modelled from the spec: the state that \<open>pushInvoice\<close> works on (not in the
  sources): the invoice's id and status, and the log of the calls made to the Export
  Gate (the ids of the invoices submitted to it).
\<close>

record push_state =
  ps_invoice_id :: string
  ps_status :: string
  gate_calls :: "string list"

text \<open>
  Modelled from the spec: \<open>pushInvoice\<close>, which is not in the sources (the page's
  Push to ERP button has no handler). The Export Gate is a parameter: it answers an
  invoice id with an external reference, or with \<open>None\<close> when it fails. Only an
  approved invoice is submitted; a push the gate acknowledges leaves the invoice
  \<open>pushed\<close>, a failed push leaves it \<open>approved\<close>.
\<close>

definition pushInvoice :: "(string \<Rightarrow> string option) \<Rightarrow> push_state \<Rightarrow> (transition_error + string) \<times> push_state" where
  "pushInvoice gate st =
     (if ps_status st \<noteq> ''approved'' then (Inl InvalidTransitionError, st)
      else let st' = st\<lparr>gate_calls := gate_calls st @ [ps_invoice_id st]\<rparr>
           in case gate (ps_invoice_id st) of
                Some ref \<Rightarrow> (Inr ref, st'\<lparr>ps_status := ''pushed''\<rparr>)
              | None \<Rightarrow> (Inl PushError, st'))"

subsection \<open>Concrete inputs\<close>

text \<open>
  Scenario A of the spec, with the figures of line \<open>l1\<close> of \<open>sampleInvoice\<close>: one
  time-and-materials clause at 200 per hour and one WorkEvent of 10 hours. The
  milestone clause and event are those of line \<open>l3\<close>. The expense event matches
  neither clause.
\<close>

definition clause_c1 :: Clause where
  "clause_c1 = \<lparr> clause_id = ''c1'', basis = TimeAndMaterials, trigger = ''hour'',
      clause_unit_price = 200, effective_from = 0, effective_to = 365, specificity = 0,
      extraction_confidence = 0.93, policy_sensitive = False \<rparr>"

definition clause_c2 :: Clause where
  "clause_c2 = \<lparr> clause_id = ''c2'', basis = FixedMilestone, trigger = ''fixed'',
      clause_unit_price = 12000, effective_from = 0, effective_to = 365, specificity = 0,
      extraction_confidence = 0.88, policy_sensitive = False \<rparr>"

definition we_001 :: WorkEvent where
  "we_001 = \<lparr> event_id = ''we_001'', event_date = 346,
      event_description = ''Consulting hours'', units = 10, unit_type = ''hour'',
      raw_amount = Some 2000, external_ref = '''' \<rparr>"

definition we_003 :: WorkEvent where
  "we_003 = \<lparr> event_id = ''we_003'', event_date = 350,
      event_description = ''Phase 1 acceptance'', units = 1, unit_type = ''fixed'',
      raw_amount = None, external_ref = '''' \<rparr>"


text \<open>
  Three lines shaped like the three records of \<open>exceptions\<close>: confidence 0.72 and no
  flag, confidence 0.89 with elevated approval, confidence 0.65 flagged for manual
  review by the engine.
\<close>

definition line_low :: DerivedLine where
  "line_low = \<lparr> dl_quantity = 1, dl_unit_price = 15000, dl_amount = 15000,
      dl_source_clause_id = Some ''c3'', dl_source_event_ids = [],
      dl_confidence = 0.72, dl_exception = None, dl_requires_elevated_approval = False \<rparr>"

definition line_cfo :: DerivedLine where
  "line_cfo = \<lparr> dl_quantity = 1, dl_unit_price = 45000, dl_amount = 45000,
      dl_source_clause_id = Some ''c7'', dl_source_event_ids = [],
      dl_confidence = 0.89, dl_exception = None, dl_requires_elevated_approval = True \<rparr>"

definition line_manual :: DerivedLine where
  "line_manual = \<lparr> dl_quantity = 10, dl_unit_price = 240, dl_amount = 2400,
      dl_source_clause_id = Some ''c1'', dl_source_event_ids = [],
      dl_confidence = 0.65, dl_exception = Some manual_review,
      dl_requires_elevated_approval = False \<rparr>"

text \<open>An approved and a draft invoice, and an Export Gate that acknowledges every push.\<close>

definition approved_state :: push_state where
  "approved_state = \<lparr> ps_invoice_id = ''inv_20260115_003'', ps_status = ''approved'',
      gate_calls = [] \<rparr>"

definition draft_state :: push_state where
  "draft_state = \<lparr> ps_invoice_id = ''inv_20260118_001'', ps_status = ''draft'',
      gate_calls = [] \<rparr>"

definition quickbooks :: "string \<Rightarrow> string option" where
  "quickbooks i = Some (''QB-'' @ i)"

section \<open>Facts about the sample data\<close>

lemma sample_status: "status sampleInvoice = ''draft''"
  by (simp add: sampleInvoice_def)

lemma sample_lines: "lines sampleInvoice = [l1, l2, l3]"
  by (simp add: sampleInvoice_def)

lemma sample_ids: "line_id l1 = ''l1''" "line_id l2 = ''l2''" "line_id l3 = ''l3''"
  by (simp_all add: l1_def l2_def l3_def)

lemma sample_amounts: "map amount (lines sampleInvoice) = [2000, 1000, 12000]"
  by (simp add: sampleInvoice_def l1_def l2_def l3_def)

lemma sample_confidences: "map confidence (lines sampleInvoice) = [0.93, 0.91, 0.88]"
  by (simp add: sampleInvoice_def l1_def l2_def l3_def)

lemma sample_totals:
  "subtotal sampleInvoice = sum_list (map amount (lines sampleInvoice))"
  "total sampleInvoice = subtotal sampleInvoice + tax sampleInvoice"
  unfolding sample_amounts by (simp_all add: sampleInvoice_def)

text \<open>Every row of the queue stores a total that is its subtotal plus its tax.\<close>

lemma queue_totals: "list_all (\<lambda>r. q_total r = q_subtotal r + q_tax r) invoices"
  by (simp add: invoices_def)

text \<open>
  The hourly lines of the sample cost quantity times unit price; the fixed line costs
  its unit price.
\<close>

lemma sample_line_amounts:
  "amount l1 = quantity l1 * unit_price l1" "amount l2 = quantity l2 * unit_price l2"
  "unit l3 = ''fixed''" "amount l3 = unit_price l3"
  by (simp_all add: l1_def l2_def l3_def)

section \<open>Properties of the approval modal\<close>

lemma trim_nonempty: "trim s \<noteq> [] \<Longrightarrow> s \<noteq> []"
  by (auto simp: trim_def)

lemma includes_single: "str_includes s [c] \<longleftrightarrow> c \<in> set s"
  by (induction s) auto

lemma handleSubmit_Some:
  assumes "handleSubmit ivc m = (m', Some d)"
  shows "trim (approverName m) \<noteq> []" and "trim (approverEmail m) \<noteq> []"
    and "str_includes (approverEmail m) ''@''" and "allLinesReviewed ivc m"
    and "confirmReviewed m"
    and "d = \<lparr> approver_name = approverName m, approver_email = approverEmail m,
               approval_note = approvalNote m, confirm_reviewed = True \<rparr>"
    and "m' = m\<lparr>error := ''''\<rparr>"
  using assms by (auto simp: handleSubmit_def Let_def split: if_splits)

lemma page_reviewed_eq:
  "page_reviewed = \<lparr> showApprovalModal = True, invoice = sampleInvoice,
     modal = \<lparr> reviewedLines = {''l1'', ''l2'', ''l3''}, approverName = ''Jane Doe'',
               approverEmail = ''controller@company.com'', approvalNote = '''',
               confirmReviewed = True, error = '''' \<rparr> \<rparr>"
  by (simp add: page_reviewed_def review_clicks_def run_def page_init_def modal_init_def
      handleToggleLine_def approve_button_visible_def sample_status sample_lines sample_ids
      insert_commute)

lemma handleSubmit_reviewed:
  "handleSubmit (invoice page_reviewed) (modal page_reviewed) =
     (modal page_reviewed,
      Some \<lparr> approver_name = ''Jane Doe'', approver_email = ''controller@company.com'',
             approval_note = '''', confirm_reviewed = True \<rparr>)"
  by (simp add: page_reviewed_eq handleSubmit_def allLinesReviewed_def sample_lines sample_ids
      trim_def is_space_def)

text \<open>
  C9. The modal calls \<open>onApprove\<close> only when the approver name is non-empty, the
  approver email contains \<open>@\<close>, every line id of the invoice is in the reviewed set and
  the confirmation box is checked; the payload of every such call has
  \<open>confirm_reviewed = true\<close>.
\<close>

theorem onApprove_only_when_valid:
  assumes "handleSubmit ivc m = (m', Some d)"
  shows "approverName m \<noteq> '''' \<and> CHR ''@'' \<in> set (approverEmail m)
         \<and> (\<forall>line \<in> set (lines ivc). line_id line \<in> reviewedLines m)
         \<and> confirmReviewed m \<and> confirm_reviewed d = True"
proof -
  note h = handleSubmit_Some [OF assms]
  have "approverName m \<noteq> []" using h(1) by (rule trim_nonempty)
  moreover have "CHR ''@'' \<in> set (approverEmail m)" using h(3) by (simp add: includes_single)
  moreover have "\<forall>line \<in> set (lines ivc). line_id line \<in> reviewedLines m"
    using h(4) by (simp add: allLinesReviewed_def list_all_iff)
  moreover have "confirm_reviewed d = True" using h(6) by simp
  ultimately show ?thesis using h(5) by simp
qed

text \<open>
  The complete review of the sample invoice reaches \<open>onApprove\<close>, and the facts of C9
  hold there.
\<close>

theorem onApprove_only_when_valid_witness:
  "handleSubmit (invoice page_reviewed) (modal page_reviewed) =
     (modal page_reviewed,
      Some \<lparr> approver_name = ''Jane Doe'', approver_email = ''controller@company.com'',
             approval_note = '''', confirm_reviewed = True \<rparr>)
   \<and> approverName (modal page_reviewed) \<noteq> ''''
   \<and> CHR ''@'' \<in> set (approverEmail (modal page_reviewed))
   \<and> lines (invoice page_reviewed) = [l1, l2, l3]
   \<and> line_id l1 \<in> reviewedLines (modal page_reviewed)
   \<and> line_id l2 \<in> reviewedLines (modal page_reviewed)
   \<and> line_id l3 \<in> reviewedLines (modal page_reviewed)
   \<and> confirmReviewed (modal page_reviewed)"
proof -
  have l: "lines (invoice page_reviewed) = [l1, l2, l3]"
    by (simp add: page_reviewed_eq sample_lines)
  note v = onApprove_only_when_valid [OF handleSubmit_reviewed]
  have "line_id l1 \<in> reviewedLines (modal page_reviewed)"
    "line_id l2 \<in> reviewedLines (modal page_reviewed)"
    "line_id l3 \<in> reviewedLines (modal page_reviewed)"
    using v unfolding l by simp_all
  then show ?thesis using v l handleSubmit_reviewed by blast
qed

text \<open>
  With a line left unticked the submit button is disabled, so a click on it changes
  nothing; \<open>handleSubmit\<close> repeats the check all the same.
\<close>

lemma submit_disabled: "\<not> allLinesReviewed (invoice p) (modal p) \<Longrightarrow> step p ModalSubmit = p"
  by simp

lemma handleSubmit_partial:
  "handleSubmit sampleInvoice modal_partial =
     (modal_partial\<lparr>error := ''Please confirm you have reviewed all line items''\<rparr>, None)"
  by (simp add: handleSubmit_def modal_partial_def allLinesReviewed_def sample_lines sample_ids
      trim_def is_space_def)

lemma unreviewed_partial: "unreviewed_ids sampleInvoice modal_partial = [''l2'', ''l3'']"
  by (simp add: unreviewed_ids_def modal_partial_def sample_lines sample_ids)

lemma not_all_partial: "\<not> allLinesReviewed sampleInvoice modal_partial"
  by (simp add: allLinesReviewed_def modal_partial_def sample_lines sample_ids)

lemma page_partial_eq:
  "page_partial = \<lparr> showApprovalModal = True, invoice = sampleInvoice, modal = modal_partial \<rparr>"
  by (simp add: page_partial_def partial_clicks_def run_def page_init_def modal_init_def
      modal_partial_def handleToggleLine_def approve_button_visible_def sample_status
      sample_lines sample_ids)

text \<open>
  C5 as stated fails: with lines \<open>l2\<close> and \<open>l3\<close> of the sample invoice unreviewed,
  \<open>handleSubmit\<close> rejects the attempt with a message that names neither id, and on
  the page, where the submit button is disabled, a click leaves the error empty.
\<close>

theorem error_does_not_name_ids:
  "unreviewed_ids sampleInvoice modal_partial = [''l2'', ''l3'']
   \<and> snd (handleSubmit sampleInvoice modal_partial) = None
   \<and> error (fst (handleSubmit sampleInvoice modal_partial))
        = ''Please confirm you have reviewed all line items''
   \<and> \<not> names_ids (error (fst (handleSubmit sampleInvoice modal_partial)))
          (unreviewed_ids sampleInvoice modal_partial)
   \<and> invoice page_partial = sampleInvoice \<and> modal page_partial = modal_partial
   \<and> error (modal (step page_partial ModalSubmit)) = ''''
   \<and> \<not> names_ids (error (modal (step page_partial ModalSubmit)))
          (unreviewed_ids sampleInvoice modal_partial)"
proof -
  have s: "step page_partial ModalSubmit = page_partial"
    using not_all_partial by (simp add: page_partial_eq)
  have e: "error (modal page_partial) = ''''"
    by (simp add: page_partial_eq modal_partial_def)
  show ?thesis
    unfolding s e handleSubmit_partial unreviewed_partial
    by (simp add: names_ids_def page_partial_eq)
qed

text \<open>
  C5, amended. Every approval attempt in which not all invoice lines are individually
  marked reviewed is rejected: \<open>onApprove\<close> is not called and nothing is approved. On
  the page the submit button is disabled in such a state, so a click on it changes
  nothing and sets no error. \<open>handleSubmit\<close>, called in such a state, sets a
  validation error that is a fixed message chosen by the approver name and email
  alone: \<open>Please enter your name\<close>, \<open>Please enter a valid email address\<close>, or else
  \<open>Please confirm you have reviewed all line items\<close>. The message is not built from
  the ids of the unreviewed lines.
\<close>

theorem partial_review_rejected:
  assumes "\<not> allLinesReviewed (invoice p) (modal p)"
  shows "step p ModalSubmit = p
     \<and> \<not> approves p e
     \<and> snd (handleSubmit (invoice p) (modal p)) = None
     \<and> error (fst (handleSubmit (invoice p) (modal p))) =
         (if trim (approverName (modal p)) = '''' then ''Please enter your name''
          else if trim (approverEmail (modal p)) = ''''
                  \<or> \<not> str_includes (approverEmail (modal p)) ''@''
               then ''Please enter a valid email address''
          else ''Please confirm you have reviewed all line items'')"
proof -
  have "step p ModalSubmit = p" using assms by simp
  moreover have "\<not> approves p e" using assms by (simp add: approves_def)
  moreover have "snd (handleSubmit (invoice p) (modal p)) = None"
    using assms by (simp add: handleSubmit_def Let_def)
  moreover have "error (fst (handleSubmit (invoice p) (modal p))) =
         (if trim (approverName (modal p)) = '''' then ''Please enter your name''
          else if trim (approverEmail (modal p)) = ''''
                  \<or> \<not> str_includes (approverEmail (modal p)) ''@''
               then ''Please enter a valid email address''
          else ''Please confirm you have reviewed all line items'')"
    using assms by (simp add: handleSubmit_def Let_def)
  ultimately show ?thesis by blast
qed

theorem partial_review_rejected_witness:
  "\<not> allLinesReviewed (invoice page_partial) (modal page_partial)
   \<and> step page_partial ModalSubmit = page_partial
   \<and> \<not> approves page_partial ModalSubmit
   \<and> snd (handleSubmit (invoice page_partial) (modal page_partial)) = None
   \<and> error (fst (handleSubmit (invoice page_partial) (modal page_partial)))
        = ''Please confirm you have reviewed all line items''"
proof -
  have n: "\<not> allLinesReviewed (invoice page_partial) (modal page_partial)"
    using not_all_partial by (simp add: page_partial_eq)
  have v: "trim (approverName (modal page_partial)) \<noteq> ''''"
    "trim (approverEmail (modal page_partial)) \<noteq> ''''"
    "str_includes (approverEmail (modal page_partial)) ''@''"
    by (simp_all add: page_partial_eq modal_partial_def trim_def is_space_def)
  note r = partial_review_rejected [OF n, of ModalSubmit]
  have "error (fst (handleSubmit (invoice page_partial) (modal page_partial)))
        = ''Please confirm you have reviewed all line items''"
    using r v by simp
  then show ?thesis using r n by blast
qed

section \<open>Properties of the invoice detail page\<close>

lemma step_reviewed:
  "step page_reviewed ModalSubmit =
     page_reviewed\<lparr> invoice := sampleInvoice\<lparr>status := ''approved''\<rparr>, showApprovalModal := False \<rparr>"
  using handleSubmit_reviewed
  by (simp add: handleApprove_def page_reviewed_eq allLinesReviewed_def sample_lines sample_ids)

lemma approves_reviewed: "approves page_reviewed ModalSubmit"
  unfolding approves_def handleSubmit_reviewed
  by (simp add: page_reviewed_eq allLinesReviewed_def sample_lines sample_ids)

lemma step_invoice:
  "invoice (step p e) = (if approves p e then (invoice p)\<lparr>status := ''approved''\<rparr> else invoice p)"
  by (cases e) (auto simp: approves_def handleApprove_def split: prod.splits option.splits)

lemma step_modal_only_on_draft:
  "modal_only_on_draft p \<Longrightarrow> modal_only_on_draft (step p e)"
  by (cases e)
    (auto simp: modal_only_on_draft_def handleApprove_def approve_button_visible_def
          split: prod.splits option.splits)

lemma run_modal_only_on_draft:
  "modal_only_on_draft p \<Longrightarrow> modal_only_on_draft (run p es)"
  unfolding run_def by (induction es arbitrary: p) (simp_all add: step_modal_only_on_draft)

lemma init_modal_only_on_draft: "modal_only_on_draft (page_init ivc)"
  by (simp add: modal_only_on_draft_def page_init_def)

lemma approves_valid:
  assumes "approves p e"
  shows "e = ModalSubmit" "showApprovalModal p" "approverName (modal p) \<noteq> ''''"
    "CHR ''@'' \<in> set (approverEmail (modal p))"
    "\<forall>line \<in> set (lines (invoice p)). line_id line \<in> reviewedLines (modal p)"
    "confirmReviewed (modal p)"
proof -
  from assms obtain m' d where h: "handleSubmit (invoice p) (modal p) = (m', Some d)"
    by (cases "handleSubmit (invoice p) (modal p)") (auto simp: approves_def)
  have t: "trim (approverName (modal p)) \<noteq> []" "str_includes (approverEmail (modal p)) ''@''"
    "allLinesReviewed (invoice p) (modal p)"
    using handleSubmit_Some [OF h] by simp_all
  show "e = ModalSubmit" "showApprovalModal p" "confirmReviewed (modal p)"
    using assms by (simp_all add: approves_def)
  show "approverName (modal p) \<noteq> ''''" using t(1) by (rule trim_nonempty)
  show "CHR ''@'' \<in> set (approverEmail (modal p))" using t(2) by (simp add: includes_single)
  show "\<forall>line \<in> set (lines (invoice p)). line_id line \<in> reviewedLines (modal p)"
    using t(3) by (simp add: allLinesReviewed_def list_all_iff)
qed

text \<open>
  On an invoice that is not a draft the Approve button is missing, the modal stays
  closed and the invoice stays as it is.
\<close>

lemma run_closed:
  assumes "status ivc \<noteq> ''draft''" "invoice q = ivc" "\<not> showApprovalModal q"
  shows "invoice (run q es) = ivc \<and> \<not> showApprovalModal (run q es)"
  using assms(2,3) unfolding run_def
proof (induction es arbitrary: q)
  case Nil
  then show ?case by simp
next
  case (Cons x xs)
  have "invoice (step q x) = ivc \<and> \<not> showApprovalModal (step q x)"
    using Cons.prems assms(1) by (cases x) (auto simp: approve_button_visible_def)
  then show ?case using Cons.IH by simp
qed

text \<open>
  C1 as stated fails: the sample invoice is in status \<open>draft\<close>, not
  \<open>pending_review\<close>, and after a complete review the submit button approves it.
\<close>

theorem approve_from_draft_succeeds:
  "status (invoice page_reviewed) = ''draft''
   \<and> status (invoice page_reviewed) \<noteq> ''pending_review''
   \<and> approves page_reviewed ModalSubmit
   \<and> status (invoice (step page_reviewed ModalSubmit)) = ''approved''"
proof -
  have "status (invoice page_reviewed) = ''draft''"
    by (simp add: page_reviewed_eq sample_status)
  moreover have "status (invoice (step page_reviewed ModalSubmit)) = ''approved''"
    unfolding step_reviewed by simp
  ultimately show ?thesis using approves_reviewed by simp
qed

text \<open>
  C1, amended. For every invoice shown by the page and every state the page can
  reach, the approve action succeeds only when the invoice status is \<open>draft\<close>, with
  the approver identity present, every line marked reviewed and the confirmation flag
  set; it then sets the status to \<open>approved\<close>. Nothing else the user does changes
  the invoice, and an invoice in any other status is never changed: the approve
  action is not offered for it, and no error is raised.
\<close>

theorem approve_only_from_draft:
  assumes "p = run (page_init ivc) es"
  shows "(approves p e \<longrightarrow>
            status (invoice p) = ''draft''
          \<and> approverName (modal p) \<noteq> '''' \<and> CHR ''@'' \<in> set (approverEmail (modal p))
          \<and> (\<forall>line \<in> set (lines (invoice p)). line_id line \<in> reviewedLines (modal p))
          \<and> confirmReviewed (modal p)
          \<and> status (invoice (step p e)) = ''approved'')
       \<and> (\<not> approves p e \<longrightarrow> invoice (step p e) = invoice p)
       \<and> (status ivc \<noteq> ''draft'' \<longrightarrow> invoice p = ivc)"
proof -
  have inv: "modal_only_on_draft p"
    unfolding assms by (rule run_modal_only_on_draft [OF init_modal_only_on_draft])
  have a: "approves p e \<longrightarrow> status (invoice p) = ''draft''"
    using inv by (auto simp: approves_def modal_only_on_draft_def)
  have c: "status ivc \<noteq> ''draft'' \<longrightarrow> invoice p = ivc"
    unfolding assms using run_closed [of ivc "page_init ivc" es] by (simp add: page_init_def)
  show ?thesis using a c approves_valid [of p e] by (simp add: step_invoice)
qed

theorem approve_only_from_draft_witness:
  "page_reviewed = run (page_init sampleInvoice) review_clicks
   \<and> approves page_reviewed ModalSubmit
   \<and> status (invoice page_reviewed) = ''draft''
   \<and> status (invoice (step page_reviewed ModalSubmit)) = ''approved''
   \<and> \<not> approves page_reviewed ModalClose
   \<and> invoice (step page_reviewed ModalClose) = invoice page_reviewed"
proof -
  have r: "page_reviewed = run (page_init sampleInvoice) review_clicks"
    by (simp add: page_reviewed_def)
  have n: "\<not> approves page_reviewed ModalClose" by (simp add: approves_def)
  note s = approve_only_from_draft [OF r, of ModalSubmit]
  note c = approve_only_from_draft [OF r, of ModalClose]
  have "status (invoice page_reviewed) = ''draft''"
    and "status (invoice (step page_reviewed ModalSubmit)) = ''approved''"
    using s approves_reviewed by blast+
  moreover have "invoice (step page_reviewed ModalClose) = invoice page_reviewed"
    using c n by blast
  ultimately show ?thesis using r n approves_reviewed by blast
qed

text \<open>
  C10. Approving an invoice through \<open>handleApprove\<close> changes only the status field of
  the invoice, to \<open>approved\<close>; the lines, subtotal, tax, total, aggregate confidence,
  dates, ids and every other field are unchanged.
\<close>

theorem handleApprove_frame:
  "status (invoice (handleApprove p d)) = ''approved''
   \<and> lines (invoice (handleApprove p d)) = lines (invoice p)
   \<and> subtotal (invoice (handleApprove p d)) = subtotal (invoice p)
   \<and> tax (invoice (handleApprove p d)) = tax (invoice p)
   \<and> total (invoice (handleApprove p d)) = total (invoice p)
   \<and> aggregate_confidence (invoice (handleApprove p d)) = aggregate_confidence (invoice p)
   \<and> invoice_date (invoice (handleApprove p d)) = invoice_date (invoice p)
   \<and> due_date (invoice (handleApprove p d)) = due_date (invoice p)
   \<and> created_at (invoice (handleApprove p d)) = created_at (invoice p)
   \<and> invoice_id (invoice (handleApprove p d)) = invoice_id (invoice p)
   \<and> contract_id (invoice (handleApprove p d)) = contract_id (invoice p)
   \<and> drafted_by (invoice (handleApprove p d)) = drafted_by (invoice p)
   \<and> explainability (invoice (handleApprove p d)) = explainability (invoice p)"
  by (simp add: handleApprove_def)

theorem handleApprove_frame_witness:
  "status (invoice (step page_reviewed ModalSubmit)) = ''approved''
   \<and> lines (invoice (step page_reviewed ModalSubmit)) = [l1, l2, l3]
   \<and> total (invoice (step page_reviewed ModalSubmit)) = 15000
   \<and> invoice_id (invoice (step page_reviewed ModalSubmit)) = ''inv_20260118_001''"
proof -
  have s: "step page_reviewed ModalSubmit =
      handleApprove page_reviewed
        \<lparr> approver_name = ''Jane Doe'', approver_email = ''controller@company.com'',
          approval_note = '''', confirm_reviewed = True \<rparr>"
    using handleSubmit_reviewed approves_reviewed by (simp add: approves_def)
  have "lines (invoice page_reviewed) = [l1, l2, l3]"
    "total (invoice page_reviewed) = 15000"
    "invoice_id (invoice page_reviewed) = ''inv_20260118_001''"
    by (simp_all add: page_reviewed_eq sampleInvoice_def)
  then show ?thesis
    unfolding s
    using handleApprove_frame [of page_reviewed
        "\<lparr> approver_name = ''Jane Doe'', approver_email = ''controller@company.com'',
           approval_note = '''', confirm_reviewed = True \<rparr>"]
    by simp
qed

lemma step_frame: "(invoice (step p e))\<lparr>status := s\<rparr> = (invoice p)\<lparr>status := s\<rparr>"
  by (simp add: step_invoice)

lemma run_frame: "(invoice (run p es))\<lparr>status := s\<rparr> = (invoice p)\<lparr>status := s\<rparr>"
  unfolding run_def by (induction es arbitrary: p) (simp_all add: step_frame)

lemma run_lines: "lines (invoice (run p es)) = lines (invoice p)"
  using arg_cong [where f = lines, OF run_frame [where s = "[]"]] by simp


lemma run_aggregate_confidence:
  "aggregate_confidence (invoice (run p es)) = aggregate_confidence (invoice p)"
  using arg_cong [where f = aggregate_confidence, OF run_frame [where s = "[]"]] by simp

lemma run_min_confidence:
  "min_confidence (invoice (run p es)) = min_confidence (invoice p)"
  by (simp add: min_confidence_def run_lines)


text \<open>A complete review approves any draft that has the three sample lines.\<close>

lemma review_reviewed:
  assumes "status ivc = ''draft''" "lines ivc = [l1, l2, l3]"
  shows "run (page_init ivc) review_clicks =
     \<lparr> showApprovalModal = True, invoice = ivc,
       modal = \<lparr> reviewedLines = {''l1'', ''l2'', ''l3''}, approverName = ''Jane Doe'',
                 approverEmail = ''controller@company.com'', approvalNote = '''',
                 confirmReviewed = True, error = '''' \<rparr> \<rparr>"
  using assms
  by (simp add: review_clicks_def run_def page_init_def modal_init_def
      handleToggleLine_def approve_button_visible_def sample_ids insert_commute)

lemma review_approves:
  assumes "status ivc = ''draft''" "lines ivc = [l1, l2, l3]"
  shows "status (invoice (run (page_init ivc) (review_clicks @ [ModalSubmit]))) = ''approved''"
proof -
  have "approves (run (page_init ivc) review_clicks) ModalSubmit"
    unfolding review_reviewed [OF assms]
    by (simp add: approves_def handleSubmit_def allLinesReviewed_def assms sample_ids
        trim_def is_space_def)
  then have "status (invoice (step (run (page_init ivc) review_clicks) ModalSubmit))
      = ''approved''"
    unfolding step_invoice by simp
  moreover have "run (page_init ivc) (review_clicks @ [ModalSubmit])
      = step (run (page_init ivc) review_clicks) ModalSubmit"
    by (simp add: run_def)
  ultimately show ?thesis by (simp only:)
qed


lemma sample_approved:
  "status (invoice (run (page_init sampleInvoice) (review_clicks @ [ModalSubmit]))) = ''approved''"
  by (rule review_approves) (simp_all add: sample_status sample_lines)




text \<open>
  C2 as stated fails: the aggregate confidence of the sample invoice is 0.91, and the
  minimum of its lines' confidence scores is 0.88.
\<close>

theorem aggregate_confidence_not_min:
  "aggregate_confidence sampleInvoice = 0.91 \<and> min_confidence sampleInvoice = 0.88
   \<and> aggregate_confidence sampleInvoice \<noteq> min_confidence sampleInvoice"
  unfolding min_confidence_def sample_confidences by (simp add: sampleInvoice_def)

text \<open>
  C2, amended. The aggregate confidence of an invoice draft is a value stored with
  the draft: no code computes it from the lines' confidence scores, and nothing the
  user does on the page changes it or the lines, so at every time it equals the
  minimum line confidence exactly when it does in the draft as loaded. In
  \<open>sampleInvoice\<close> it does not, at any time.
\<close>

theorem aggregate_confidence_stored_with_draft:
  "aggregate_confidence (invoice (run (page_init ivc) es)) = aggregate_confidence ivc
   \<and> min_confidence (invoice (run (page_init ivc) es)) = min_confidence ivc
   \<and> ((aggregate_confidence (invoice (run (page_init ivc) es))
          = min_confidence (invoice (run (page_init ivc) es)))
        = (aggregate_confidence ivc = min_confidence ivc))
   \<and> aggregate_confidence (invoice (run (page_init sampleInvoice) es))
        \<noteq> min_confidence (invoice (run (page_init sampleInvoice) es))"
proof -
  have f: "aggregate_confidence (invoice (run (page_init ivc) es)) = aggregate_confidence ivc"
    "min_confidence (invoice (run (page_init ivc) es)) = min_confidence ivc" for ivc
    by (simp_all add: run_aggregate_confidence run_min_confidence page_init_def)
  have s: "aggregate_confidence sampleInvoice \<noteq> min_confidence sampleInvoice"
    unfolding min_confidence_def sample_confidences by (simp add: sampleInvoice_def)
  show ?thesis unfolding f using s by simp
qed

theorem aggregate_confidence_stored_with_draft_witness:
  "status (invoice (run (page_init sampleInvoice) (review_clicks @ [ModalSubmit]))) = ''approved''
   \<and> aggregate_confidence (invoice (run (page_init sampleInvoice) (review_clicks @ [ModalSubmit])))
        = 0.91
   \<and> min_confidence (invoice (run (page_init sampleInvoice) (review_clicks @ [ModalSubmit])))
        = 0.88"
proof -
  note w = aggregate_confidence_stored_with_draft [of sampleInvoice "review_clicks @ [ModalSubmit]"]
  have a: "aggregate_confidence (invoice (run (page_init sampleInvoice) (review_clicks @ [ModalSubmit])))
      = aggregate_confidence sampleInvoice"
    using w by blast
  have m: "min_confidence (invoice (run (page_init sampleInvoice) (review_clicks @ [ModalSubmit])))
      = min_confidence sampleInvoice"
    using w by blast
  have "aggregate_confidence sampleInvoice = 0.91" by (simp add: sampleInvoice_def)
  moreover have "min_confidence sampleInvoice = 0.88"
    unfolding min_confidence_def sample_confidences by simp
  ultimately show ?thesis using sample_approved unfolding a m by simp
qed

text \<open>
  The Push to ERP button is there only for an approved invoice, and it has no handler:
  a click on it changes nothing.
\<close>

lemma push_button_inert:
  "push_button_visible p \<longleftrightarrow> status (invoice p) = ''approved''" "step p ClickPushToERP = p"
  by (simp_all add: push_button_visible_def)

text \<open>
  The queue row of the sample invoice shows the confidence 0.93, neither the
  aggregate confidence of the detail page nor the minimum of the line confidences.
\<close>

lemma queue_row_confidence:
  "q_id (hd invoices) = invoice_id sampleInvoice" "q_confidence (hd invoices) = 0.93"
  by (simp_all add: invoices_def sampleInvoice_def)

section \<open>Properties of the engine\<close>

text \<open>
  C4. \<open>pushInvoice\<close> succeeds only when the invoice status is \<open>approved\<close>; called
  from any other status it fails with \<open>InvalidTransitionError\<close>, leaves the status
  unchanged and makes no Export Gate call.
\<close>

theorem pushInvoice_gate:
  "(fst (pushInvoice gate st) = Inr ref \<longrightarrow> ps_status st = ''approved'')
   \<and> (ps_status st \<noteq> ''approved'' \<longrightarrow>
        fst (pushInvoice gate st) = Inl InvalidTransitionError
      \<and> ps_status (snd (pushInvoice gate st)) = ps_status st
      \<and> gate_calls (snd (pushInvoice gate st)) = gate_calls st
      \<and> snd (pushInvoice gate st) = st)"
  by (auto simp: pushInvoice_def Let_def split: option.splits)

theorem pushInvoice_gate_witness:
  "pushInvoice quickbooks approved_state =
     (Inr ''QB-inv_20260115_003'',
      approved_state\<lparr>gate_calls := [''inv_20260115_003''], ps_status := ''pushed''\<rparr>)
   \<and> ps_status approved_state = ''approved''
   \<and> ps_status draft_state \<noteq> ''approved''
   \<and> pushInvoice quickbooks draft_state = (Inl InvalidTransitionError, draft_state)"
proof -
  have a: "pushInvoice quickbooks approved_state =
     (Inr ''QB-inv_20260115_003'',
      approved_state\<lparr>gate_calls := [''inv_20260115_003''], ps_status := ''pushed''\<rparr>)"
    by (simp add: pushInvoice_def approved_state_def quickbooks_def)
  have d: "ps_status draft_state \<noteq> ''approved''" by (simp add: draft_state_def)
  have "ps_status approved_state = ''approved''"
    using pushInvoice_gate [of quickbooks approved_state "''QB-inv_20260115_003''"] a by simp
  moreover have "pushInvoice quickbooks draft_state = (Inl InvalidTransitionError, draft_state)"
    using pushInvoice_gate [of quickbooks draft_state "''''"] d
    by (simp add: prod_eq_iff)
  ultimately show ?thesis using a d by simp
qed

lemma matching_c1_we_001: "matching [clause_c1] we_001 = [clause_c1]"
  by (simp add: matching_def matches_def clause_c1_def we_001_def)


text \<open>
  C8. A derived line with exactly one matching clause is no exception; on a
  time-and-materials clause its amount is quantity times unit price, on a fixed
  milestone clause it is the clause's milestone amount whatever the quantity.
\<close>

theorem single_match_amount:
  assumes "matching cs ev = [c]"
  shows "\<not> dl_is_exception (derive_line penalty cs ev)
     \<and> dl_quantity (derive_line penalty cs ev) = units ev
     \<and> dl_unit_price (derive_line penalty cs ev) = clause_unit_price c
     \<and> (basis c = TimeAndMaterials \<longrightarrow>
          dl_amount (derive_line penalty cs ev)
            = dl_quantity (derive_line penalty cs ev) * dl_unit_price (derive_line penalty cs ev))
     \<and> (basis c = FixedMilestone \<longrightarrow>
          dl_amount (derive_line penalty cs ev) = clause_unit_price c)"
  using assms
  by (simp add: derive_line_def matched_line_def line_amount_def dl_is_exception_def)

text \<open>Scenario A: 10 hours at 200 per hour give the amount 2000 of line \<open>l1\<close>.\<close>

theorem single_match_amount_witness:
  "matching [clause_c1] we_001 = [clause_c1]
   \<and> basis clause_c1 = TimeAndMaterials
   \<and> dl_amount (derive_line 0 [clause_c1] we_001) = 2000
   \<and> dl_amount (derive_line 0 [clause_c1] we_001) = amount l1
   \<and> \<not> dl_is_exception (derive_line 0 [clause_c1] we_001)"
proof -
  have b: "basis clause_c1 = TimeAndMaterials" "clause_unit_price clause_c1 = 200"
    by (simp_all add: clause_c1_def)
  have u: "units we_001 = 10" by (simp add: we_001_def)
  have "amount l1 = 2000" by (simp add: l1_def)
  then show ?thesis
    using single_match_amount [OF matching_c1_we_001, of 0] matching_c1_we_001 b u
    by simp
qed

lemma milestone_amount:
  "dl_amount (derive_line penalty [clause_c1, clause_c2] we_003) = amount l3"
  by (simp add: derive_line_def matching_def matches_def matched_line_def line_amount_def
      clause_c1_def clause_c2_def we_003_def l3_def)




text \<open>
  The display table of the Exception Center has an entry \<open>missing_data\<close> and none
  under \<open>data-missing\<close>.
\<close>

lemma typeConfig_keys:
  "typeConfig ''missing_data'' = Some (''Missing Data'', ''gray'')"
  "typeConfig ''data-missing'' = None"
  by (simp_all add: typeConfig_def)



lemma exceptions_types:
  "map exc_type exceptions = [''low_confidence'', ''cfo_required'', ''manual_review'']"
  "map exc_confidence exceptions = [0.72, 0.89, 0.65]"
  "map exc_assignedTo exceptions = [None, Some ''cfo@example.com'', None]"
  by (simp_all add: exceptions_def exc_001_def exc_002_def exc_003_def)

text \<open>
  The router gives the three sample-shaped lines the types and the assignees of the
  three records of \<open>exceptions\<close>.
\<close>

lemma route_sample_lines:
  "map (\<lambda>l. map_option (\<lambda>x. kind_name (re_kind x)) (route_line l)) [line_low, line_cfo, line_manual]
     = map Some (map exc_type exceptions)"
  "map (\<lambda>l. map_option (\<lambda>x. assignedTo_of (re_reviewer x)) (route_line l)) [line_low, line_cfo, line_manual]
     = map Some (map exc_assignedTo exceptions)"
  unfolding exceptions_types
  by (simp_all add: route_line_def line_low_def line_cfo_def line_manual_def CONFIDENCE_THRESHOLD_def)

text \<open>
  C6 as stated fails: the third record of \<open>exceptions\<close> has a confidence below 0.80
  and is of type \<open>manual_review\<close>, not \<open>low_confidence\<close>; so is the exception the
  router creates for a line of that shape.
\<close>

theorem low_confidence_rule_fails:
  "exc_confidence exc_003 < 0.80 \<and> exc_type exc_003 = ''manual_review''
   \<and> exc_type exc_003 \<noteq> ''low_confidence''
   \<and> dl_confidence line_manual < 0.80
   \<and> map_option re_kind (route_line line_manual) = Some manual_review
   \<and> map_option re_kind (route_line line_manual) \<noteq> Some low_confidence"
  by (simp add: exc_003_def route_line_def line_manual_def)

text \<open>
  C6, amended. For every exception created by the router: if the line has
  \<open>requires_elevated_approval\<close> set, the exception has kind \<open>cfo_required\<close> and is
  assigned to the designated CFO approver regardless of confidence; otherwise, if the
  Derivation Engine flagged the line, the exception keeps the engine's kind whatever
  the confidence, with the Controller as reviewer; otherwise, if the line's confidence
  is below 0.80, the exception has kind \<open>low_confidence\<close> and its default reviewer is
  the Controller. Any other line raises no exception.
\<close>

theorem route_line_rules:
  "(dl_requires_elevated_approval l \<longrightarrow>
      route_line l = Some \<lparr> re_kind = cfo_required, re_reviewer = CFO_approver, re_resolved = False \<rparr>)
   \<and> (\<not> dl_requires_elevated_approval l \<and> dl_exception l = Some k \<longrightarrow>
      route_line l = Some \<lparr> re_kind = k, re_reviewer = Controller, re_resolved = False \<rparr>)
   \<and> (\<not> dl_requires_elevated_approval l \<and> dl_exception l = None \<and> dl_confidence l < 0.80 \<longrightarrow>
      route_line l = Some \<lparr> re_kind = low_confidence, re_reviewer = Controller, re_resolved = False \<rparr>)
   \<and> (\<not> dl_requires_elevated_approval l \<and> dl_exception l = None \<and> 0.80 \<le> dl_confidence l \<longrightarrow>
      route_line l = None)"
  by (simp add: route_line_def CONFIDENCE_THRESHOLD_def)

theorem route_line_rules_witness:
  "dl_requires_elevated_approval line_cfo \<and> 0.80 \<le> dl_confidence line_cfo
   \<and> route_line line_cfo
       = Some \<lparr> re_kind = cfo_required, re_reviewer = CFO_approver, re_resolved = False \<rparr>
   \<and> \<not> dl_requires_elevated_approval line_manual \<and> dl_exception line_manual = Some manual_review
   \<and> route_line line_manual
       = Some \<lparr> re_kind = manual_review, re_reviewer = Controller, re_resolved = False \<rparr>
   \<and> \<not> dl_requires_elevated_approval line_low \<and> dl_exception line_low = None
   \<and> dl_confidence line_low < 0.80
   \<and> route_line line_low
       = Some \<lparr> re_kind = low_confidence, re_reviewer = Controller, re_resolved = False \<rparr>"
proof -
  have c: "dl_requires_elevated_approval line_cfo" "0.80 \<le> dl_confidence line_cfo"
    by (simp_all add: line_cfo_def)
  have m: "\<not> dl_requires_elevated_approval line_manual" "dl_exception line_manual = Some manual_review"
    by (simp_all add: line_manual_def)
  have w: "\<not> dl_requires_elevated_approval line_low" "dl_exception line_low = None"
    "dl_confidence line_low < 0.80"
    by (simp_all add: line_low_def)
  show ?thesis
    using route_line_rules [of line_cfo manual_review] route_line_rules [of line_manual manual_review]
      route_line_rules [of line_low manual_review] c m w
    by blast
qed

end
